theory Spec2Isabelle
  imports Complex_Main
begin

section \<open>JavaScript numbers\<close>

text \<open>
  The scripts compute with JavaScript numbers. A number is modelled as a finite real
  value, one of the two infinities, or NaN. Arithmetic on finite values is exact:
  rounding to 53 bits, overflow to an infinity and the sign of a zero are not
  modelled. What is modelled is every place where the operators leave the finite
  values: division by zero, \<open>0 / 0\<close>, \<open>Infinity - Infinity\<close>, \<open>0 * Infinity\<close>,
  the propagation of NaN, and comparisons with NaN (always false).
\<close>

datatype jsnum = Fin real | PInf | NInf | NaN

fun js_neg :: "jsnum \<Rightarrow> jsnum" where
  "js_neg (Fin a) = Fin (- a)"
| "js_neg PInf = NInf"
| "js_neg NInf = PInf"
| "js_neg NaN = NaN"

fun js_add :: "jsnum \<Rightarrow> jsnum \<Rightarrow> jsnum" where
  "js_add NaN y = NaN"
| "js_add x NaN = NaN"
| "js_add (Fin a) (Fin b) = Fin (a + b)"
| "js_add (Fin a) PInf = PInf"
| "js_add (Fin a) NInf = NInf"
| "js_add PInf (Fin b) = PInf"
| "js_add NInf (Fin b) = NInf"
| "js_add PInf PInf = PInf"
| "js_add NInf NInf = NInf"
| "js_add PInf NInf = NaN"
| "js_add NInf PInf = NaN"

definition js_sub :: "jsnum \<Rightarrow> jsnum \<Rightarrow> jsnum" where
  "js_sub x y = js_add x (js_neg y)"

fun js_mul :: "jsnum \<Rightarrow> jsnum \<Rightarrow> jsnum" where
  "js_mul NaN y = NaN"
| "js_mul x NaN = NaN"
| "js_mul (Fin a) (Fin b) = Fin (a * b)"
| "js_mul (Fin a) PInf = (if a = 0 then NaN else if a < 0 then NInf else PInf)"
| "js_mul (Fin a) NInf = (if a = 0 then NaN else if a < 0 then PInf else NInf)"
| "js_mul PInf (Fin b) = (if b = 0 then NaN else if b < 0 then NInf else PInf)"
| "js_mul NInf (Fin b) = (if b = 0 then NaN else if b < 0 then PInf else NInf)"
| "js_mul PInf PInf = PInf"
| "js_mul NInf NInf = PInf"
| "js_mul PInf NInf = NInf"
| "js_mul NInf PInf = NInf"

text \<open>
  Division: a finite value divided by zero is NaN for \<open>0 / 0\<close> and otherwise an
  infinity with the sign of the dividend (the zero is taken as \<open>+0\<close>).
\<close>

fun js_div :: "jsnum \<Rightarrow> jsnum \<Rightarrow> jsnum" where
  "js_div NaN y = NaN"
| "js_div x NaN = NaN"
| "js_div (Fin a) (Fin b) =
     (if b \<noteq> 0 then Fin (a / b) else if a = 0 then NaN else if a < 0 then NInf else PInf)"
| "js_div (Fin a) PInf = Fin 0"
| "js_div (Fin a) NInf = Fin 0"
| "js_div PInf (Fin b) = (if b < 0 then NInf else PInf)"
| "js_div NInf (Fin b) = (if b < 0 then PInf else NInf)"
| "js_div PInf PInf = NaN"
| "js_div NInf NInf = NaN"
| "js_div PInf NInf = NaN"
| "js_div NInf PInf = NaN"

text \<open>
  \<open>Math.pow\<close> with an integer exponent, the only kind the callers pass
  (\<open>parseInt\<close> of the number of instalments). \<open>Math.pow(x, 0)\<close> is 1 for every
  \<open>x\<close>, NaN included.
\<close>

definition Math_pow :: "jsnum \<Rightarrow> int \<Rightarrow> jsnum" where
  "Math_pow b k =
     (if k = 0 then Fin 1
      else case b of
        NaN \<Rightarrow> NaN
      | Fin x \<Rightarrow> (if x = 0 \<and> k < 0 then PInf else Fin (x powi k))
      | PInf \<Rightarrow> (if 0 < k then PInf else Fin 0)
      | NInf \<Rightarrow> (if 0 < k then (if odd k then NInf else PInf) else Fin 0))"

fun Math_abs :: "jsnum \<Rightarrow> jsnum" where
  "Math_abs (Fin a) = Fin \<bar>a\<bar>"
| "Math_abs PInf = PInf"
| "Math_abs NInf = PInf"
| "Math_abs NaN = NaN"

text \<open>The comparison \<open>x > y\<close>: false as soon as one side is NaN.\<close>

fun js_gt :: "jsnum \<Rightarrow> jsnum \<Rightarrow> bool" where
  "js_gt (Fin a) (Fin b) = (b < a)"
| "js_gt PInf (Fin b) = True"
| "js_gt PInf NInf = True"
| "js_gt (Fin a) NInf = True"
| "js_gt x y = False"

section \<open>The closed formulas\<close>

text \<open>
  The four formulas and the rate search stand twice in the repository, in
  \<open>src/desconto-racional/main.js\<close> and in \<open>src/unnamed/part_001\<close>; the two copies
  differ only in the last two lines of the rate search. \<open>calcularTabelaAmortizacao\<close>
  is in \<open>src/unnamed/part_000\<close>. The functions are modelled on the arguments the
  claims speak of: numbers for the amounts and the rate, an integer for the number of
  instalments \<open>p\<close>.

  \<open>function Calcular_PrestacaoMensal(valorFinanciado, t, p)\<close>:
  \<open>(valorFinanciado * t) / (1 - Math.pow(1 + t, -p))\<close>. No branch on \<open>t\<close>.
\<close>

definition Calcular_PrestacaoMensal :: "jsnum \<Rightarrow> jsnum \<Rightarrow> int \<Rightarrow> jsnum" where
  "Calcular_PrestacaoMensal valorFinanciado t p =
     js_div (js_mul valorFinanciado t)
            (js_sub (Fin 1) (Math_pow (js_add (Fin 1) t) (- p)))"

definition Calcular_CoeficienteFinanciamento :: "jsnum \<Rightarrow> int \<Rightarrow> jsnum" where
  "Calcular_CoeficienteFinanciamento t p =
     js_div (js_mul t (Math_pow (js_add (Fin 1) t) p))
            (js_sub (Math_pow (js_add (Fin 1) t) p) (Fin 1))"

definition Calcular_ValorPago :: "jsnum \<Rightarrow> jsnum \<Rightarrow> int \<Rightarrow> jsnum" where
  "Calcular_ValorPago valorFinanciado t p =
     js_mul (Calcular_PrestacaoMensal valorFinanciado t p) (Fin (of_int p))"

definition Calcular_ValorCorrigido :: "jsnum \<Rightarrow> jsnum \<Rightarrow> int \<Rightarrow> jsnum" where
  "Calcular_ValorCorrigido valorPago t p = js_div valorPago (Math_pow (js_add (Fin 1) t) p)"

section \<open>The effective rate by Newton's method\<close>

text \<open>
  \<open>Calcular_TaxaReal_MetodoNewton\<close> has one way to fail, \<open>return null\<close> after the
  console message; it is \<open>NoConvergence\<close> here. \<open>InvalidInput\<close> is the error the
  specification names; no function of the scripts raises or returns it.
\<close>

datatype failure = InvalidInput | NoConvergence

definition precisao :: jsnum where
  "precisao = Fin (1 / 1000000)"

record newton_state =
  estimativa :: jsnum
  erro :: jsnum
  iteracoes :: nat

text \<open>The residual \<open>valorFinanciado - (valorPago / Math.pow(1 + estimativa, p))\<close>.\<close>

definition erro_de :: "jsnum \<Rightarrow> int \<Rightarrow> jsnum \<Rightarrow> jsnum \<Rightarrow> jsnum" where
  "erro_de valorFinanciado p valorPago est =
     js_sub valorFinanciado (js_div valorPago (Math_pow (js_add (Fin 1) est) p))"

text \<open>
  One pass of the loop body: the update of \<open>estimativa\<close>, the new \<open>erro\<close>, and
  \<open>iteracoes++\<close>.
\<close>

definition newton_passo :: "jsnum \<Rightarrow> int \<Rightarrow> jsnum \<Rightarrow> newton_state \<Rightarrow> newton_state" where
  "newton_passo valorFinanciado p valorPago s =
     (let est = js_sub (estimativa s)
                  (js_div (erro s)
                     (js_div (js_mul (Fin (of_int p)) valorPago)
                             (Math_pow (js_add (Fin 1) (estimativa s)) (p + 1))))
      in \<lparr>estimativa = est,
          erro = erro_de valorFinanciado p valorPago est,
          iteracoes = iteracoes s + 1\<rparr>)"

text \<open>
  The loop \<open>for (; Math.abs(erro) > precisao; )\<close> with its early
  \<open>return null\<close>. The result says how the loop was left and gives the variables
  at that moment, so that the number of passes can be read off \<open>iteracoes\<close>.
\<close>

datatype loop_exit = GuardFalse | ReturnedNull

function newton_loop ::
  "jsnum \<Rightarrow> int \<Rightarrow> jsnum \<Rightarrow> newton_state \<Rightarrow> loop_exit \<times> newton_state" where
  "newton_loop valorFinanciado p valorPago s =
     (if js_gt (Math_abs (erro s)) precisao then
        (let s' = newton_passo valorFinanciado p valorPago s
         in if 1000 < iteracoes s' then (ReturnedNull, s')
            else newton_loop valorFinanciado p valorPago s')
      else (GuardFalse, s))"
  by pat_completeness auto
termination
  by (relation "measure (\<lambda>(vf, p, vp, s). 1001 - iteracoes s)")
     (auto simp: newton_passo_def Let_def)

declare newton_loop.simps [simp del]

definition newton_inicio :: "jsnum \<Rightarrow> int \<Rightarrow> jsnum \<Rightarrow> newton_state" where
  "newton_inicio valorFinanciado p valorPago =
     \<lparr>estimativa = Fin (1 / 10),
      erro = erro_de valorFinanciado p valorPago (Fin (1 / 10)),
      iteracoes = 0\<rparr>"

text \<open>main.js: \<open>var treal = estimativa * 100; // Converta para porcentagem\<close>.\<close>

definition Calcular_TaxaReal_MetodoNewton :: "jsnum \<Rightarrow> int \<Rightarrow> jsnum \<Rightarrow> failure + jsnum" where
  "Calcular_TaxaReal_MetodoNewton valorFinanciado p valorPago =
     (case newton_loop valorFinanciado p valorPago (newton_inicio valorFinanciado p valorPago) of
        (ReturnedNull, s) \<Rightarrow> Inl NoConvergence
      | (GuardFalse, s) \<Rightarrow> Inr (js_mul (estimativa s) (Fin 100)))"

text \<open>The copy in \<open>part_001\<close>: the same loop, then \<open>var treal = 3.8956\<close>.\<close>

definition Calcular_TaxaReal_MetodoNewton_copia ::
  "jsnum \<Rightarrow> int \<Rightarrow> jsnum \<Rightarrow> failure + jsnum" where
  "Calcular_TaxaReal_MetodoNewton_copia valorFinanciado p valorPago =
     (case newton_loop valorFinanciado p valorPago (newton_inicio valorFinanciado p valorPago) of
        (ReturnedNull, s) \<Rightarrow> Inl NoConvergence
      | (GuardFalse, s) \<Rightarrow> Inr (Fin (38956 / 10000)))"

section \<open>The schedule\<close>

record linha =
  mes :: int
  prestacao :: jsnum
  juros :: jsnum
  amortizacao :: jsnum
  saldoDevedor :: jsnum

subsection \<open>calcularTabelaAmortizacao\<close>

definition NUMERO_DE_REPETICOES :: int where
  "NUMERO_DE_REPETICOES = 96"

text \<open>
  The loop \<open>for (let mes = 1; mes <= NUMERO_DE_REPETICOES; mes++)\<close>: the row is
  pushed with the balance it started from, then \<open>saldoDevedor -= amortizacao\<close>.
\<close>

function tabela_loop ::
  "jsnum \<Rightarrow> jsnum \<Rightarrow> int \<Rightarrow> int \<Rightarrow> jsnum \<Rightarrow> linha list \<Rightarrow> linha list" where
  "tabela_loop valorFinanciado t p m saldo tabela =
     (if m \<le> NUMERO_DE_REPETICOES then
        (let j = js_mul saldo t;
             a = js_sub (Calcular_PrestacaoMensal valorFinanciado t p) j
         in tabela_loop valorFinanciado t p (m + 1) (js_sub saldo a)
              (tabela @ [\<lparr>mes = m,
                           prestacao = Calcular_PrestacaoMensal valorFinanciado t p,
                           juros = j, amortizacao = a, saldoDevedor = saldo\<rparr>]))
      else tabela)"
  by pat_completeness auto
termination
  by (relation "measure (\<lambda>(vf, t, p, m, saldo, tabela). nat (NUMERO_DE_REPETICOES + 1 - m))")
     auto

declare tabela_loop.simps [simp del]

definition calcularTabelaAmortizacao :: "jsnum \<Rightarrow> jsnum \<Rightarrow> int \<Rightarrow> linha list" where
  "calcularTabelaAmortizacao valorFinanciado t p = tabela_loop valorFinanciado t p 1 valorFinanciado []"

subsection \<open>The table of the click handler of main.js\<close>

text \<open>
  The handler keeps the balance in \<open>valorFinanciado\<close>, the three totals in
  \<open>pt\<close>, \<open>jt\<close>, \<open>at\<close> (the field \<open>att\<close>: \<open>at\<close> is reserved in terms), and appends
  one table row per pass of its loop.
\<close>

record price_state =
  valorFinanciado :: jsnum
  pt :: jsnum
  jt :: jsnum
  att :: jsnum
  linhas :: "linha list"

text \<open>
  The seven assignments that the down-payment block and the loop body share; the
  result carries \<open>juros\<close>, \<open>amortizacao\<close> and \<open>saldoDevedor\<close> beside the state.
\<close>

definition amortiza :: "jsnum \<Rightarrow> jsnum \<Rightarrow> price_state \<Rightarrow> (jsnum \<times> jsnum \<times> jsnum) \<times> price_state" where
  "amortiza prest t s =
     (let j = js_mul (valorFinanciado s) t;
          a = js_sub prest j;
          sd = js_sub (valorFinanciado s) a
      in ((j, a, sd),
          s\<lparr>valorFinanciado := sd,
            pt := js_add (pt s) prest,
            jt := js_add (jt s) j,
            att := js_add (att s) a\<rparr>))"

function price_loop :: "jsnum \<Rightarrow> jsnum \<Rightarrow> int \<Rightarrow> int \<Rightarrow> price_state \<Rightarrow> price_state" where
  "price_loop prest t p i s =
     (if i \<le> p then
        (case amortiza prest t s of
           ((j, a, sd), s') \<Rightarrow>
             price_loop prest t p (i + 1)
               (s'\<lparr>linhas := linhas s' @
                  [\<lparr>mes = i, prestacao = prest, juros = j, amortizacao = a,
                    saldoDevedor = sd\<rparr>]\<rparr>))
      else s)"
  by pat_completeness auto
termination
  by (relation "measure (\<lambda>(prest, t, p, i, s). nat (p + 1 - i))") auto

declare price_loop.simps [simp del]

text \<open>
  The handler from \<open>var prestacao = ...\<close> to the end of the loop; \<open>checked\<close> is
  \<open>checkbox.checked\<close>.
\<close>

definition tabela_price :: "jsnum \<Rightarrow> jsnum \<Rightarrow> int \<Rightarrow> bool \<Rightarrow> price_state" where
  "tabela_price valorFinanciado0 t p checked =
     (let prest = Calcular_PrestacaoMensal valorFinanciado0 t p;
          s0 = \<lparr>valorFinanciado = valorFinanciado0, pt = Fin 0, jt = Fin 0, att = Fin 0,
                linhas = []\<rparr>
      in if checked then price_loop prest t (p - 1) 1 (snd (amortiza prest t s0))
         else price_loop prest t p 1 s0)"

section \<open>Facts about the arithmetic and the loop\<close>

subsection \<open>NaN propagates\<close>

lemma js_add_NaN_right [simp]: "js_add x NaN = NaN"
  by (cases x) simp_all

lemma js_mul_NaN_right [simp]: "js_mul x NaN = NaN"
  by (cases x) simp_all

lemma js_div_NaN_right [simp]: "js_div x NaN = NaN"
  by (cases x) simp_all

lemma js_sub_NaN [simp]: "js_sub NaN y = NaN" "js_sub x NaN = NaN"
  by (simp_all add: js_sub_def)

lemma js_sub_Fin [simp]: "js_sub (Fin a) (Fin b) = Fin (a - b)"
  by (simp add: js_sub_def)

lemma js_gt_NaN_left [simp]: "\<not> js_gt NaN y"
  by simp

lemma Math_pow_NaN: "k \<noteq> 0 \<Longrightarrow> Math_pow NaN k = NaN"
  by (simp add: Math_pow_def)

lemma prestacao_NaN: "Calcular_PrestacaoMensal NaN t p = NaN" "Calcular_PrestacaoMensal vf NaN p = NaN"
  by (simp_all add: Calcular_PrestacaoMensal_def)

lemma valor_pago_NaN: "Calcular_ValorPago NaN t p = NaN" "Calcular_ValorPago vf NaN p = NaN"
  by (simp_all add: Calcular_ValorPago_def prestacao_NaN)

lemma coeficiente_NaN: "Calcular_CoeficienteFinanciamento NaN p = NaN"
  by (simp add: Calcular_CoeficienteFinanciamento_def)

lemma erro_de_NaN: "erro_de NaN p vp est = NaN" "erro_de vf p NaN est = NaN"
  by (simp_all add: erro_de_def)

subsection \<open>Leaving the loop\<close>

lemma newton_loop_exit:
  "\<not> js_gt (Math_abs (erro s)) precisao \<Longrightarrow> newton_loop vf p vp s = (GuardFalse, s)"
  by (simp add: newton_loop.simps)

lemma newton_loop_null:
  "js_gt (Math_abs (erro s)) precisao \<Longrightarrow> 1000 \<le> iteracoes s \<Longrightarrow>
   newton_loop vf p vp s = (ReturnedNull, newton_passo vf p vp s)"
  by (subst newton_loop.simps) (simp add: newton_passo_def Let_def)

lemma newton_loop_again:
  "js_gt (Math_abs (erro s)) precisao \<Longrightarrow> iteracoes s < 1000 \<Longrightarrow>
   newton_loop vf p vp s = newton_loop vf p vp (newton_passo vf p vp s)"
  by (subst newton_loop.simps) (simp add: newton_passo_def Let_def)

lemma newton_NaN_entry:
  assumes "vf = NaN \<or> vp = NaN"
  shows "newton_loop vf p vp (newton_inicio vf p vp) = (GuardFalse, newton_inicio vf p vp)"
proof (rule newton_loop_exit)
  have "erro (newton_inicio vf p vp) = NaN"
    using assms by (auto simp: newton_inicio_def erro_de_NaN)
  then show "\<not> js_gt (Math_abs (erro (newton_inicio vf p vp))) precisao"
    by simp
qed

subsection \<open>The annuity formula\<close>

lemma Math_pow_Fin_pos: "0 < x \<Longrightarrow> Math_pow (Fin x) k = Fin (x powi k)"
  by (simp add: Math_pow_def)


lemma powi_neg_ne_one:
  fixes x :: real
  assumes "0 < x" "x \<noteq> 1" "1 \<le> n"
  shows "x powi (- n) \<noteq> 1"
proof
  assume h: "x powi (- n) = 1"
  have eq: "x powi (- n) = inverse (x ^ nat n)"
    using assms by (simp add: power_int_def power_inverse)
  from h eq have "x ^ nat n = 1 ^ nat n"
    by simp
  moreover have "0 < nat n" using assms by simp
  ultimately have "x = 1"
    using assms(1) by (intro power_eq_imp_eq_base [of x "nat n" 1]) auto
  with assms(2) show False by simp
qed

lemma prestacao_nonzero_rate:
  assumes "r \<noteq> 0" and "- 1 < r" and "1 \<le> n"
  shows "Calcular_PrestacaoMensal (Fin P) (Fin r) n = Fin (P * r / (1 - (1 + r) powi (- n)))"
proof -
  have pos: "0 < 1 + r" using assms by simp
  have ne: "(1 + r) powi (- n) \<noteq> 1"
    using powi_neg_ne_one [of "1 + r" n] assms by simp
  show ?thesis
    using ne pos by (simp add: Calcular_PrestacaoMensal_def Math_pow_Fin_pos)
qed


subsection \<open>What the loop leaves behind\<close>







subsection \<open>Counting the passes\<close>

lemma iteracoes_passo [simp]: "iteracoes (newton_passo vf p vp s) = iteracoes s + 1"
  by (simp add: newton_passo_def Let_def)

lemma newton_loop_iteracoes_le:
  "iteracoes s \<le> 1000 \<Longrightarrow> iteracoes (snd (newton_loop vf p vp s)) \<le> 1001"
proof (induction vf p vp s rule: newton_loop.induct)
  case (1 vf p vp s)
  show ?case
  proof (cases "js_gt (Math_abs (erro s)) precisao")
    case False
    then show ?thesis using "1.prems" by (simp add: newton_loop_exit)
  next
    case True
    show ?thesis
    proof (cases "iteracoes s < 1000")
      case False
      then have "iteracoes s = 1000" using "1.prems" by simp
      then show ?thesis using True by (simp add: newton_loop_null)
    next
      case lt: True
      then have a: "\<not> 1000 < iteracoes (newton_passo vf p vp s)"
        and b: "iteracoes (newton_passo vf p vp s) \<le> 1000" by simp_all
      show ?thesis
        using "1.IH" [OF True refl a b] True lt by (simp add: newton_loop_again)
    qed
  qed
qed

lemma newton_loop_value_within_1000:
  "iteracoes s \<le> 1000 \<Longrightarrow> newton_loop vf p vp s = (GuardFalse, s') \<Longrightarrow> iteracoes s' \<le> 1000"
proof (induction vf p vp s rule: newton_loop.induct)
  case (1 vf p vp s)
  show ?case
  proof (cases "js_gt (Math_abs (erro s)) precisao")
    case False
    then show ?thesis using "1.prems" by (simp add: newton_loop_exit)
  next
    case True
    show ?thesis
    proof (cases "iteracoes s < 1000")
      case False
      then have "iteracoes s = 1000" using "1.prems" by simp
      then show ?thesis using True "1.prems" by (simp add: newton_loop_null)
    next
      case lt: True
      then have a: "\<not> 1000 < iteracoes (newton_passo vf p vp s)"
        and b: "iteracoes (newton_passo vf p vp s) \<le> 1000" by simp_all
      have c: "newton_loop vf p vp (newton_passo vf p vp s) = (GuardFalse, s')"
        using "1.prems"(2) True lt by (simp add: newton_loop_again)
      show ?thesis
        using "1.IH" [OF True refl a b c] .
    qed
  qed
qed


lemma newton_never_invalid_input:
  "Calcular_TaxaReal_MetodoNewton vf p vp \<noteq> Inl InvalidInput"
  "Calcular_TaxaReal_MetodoNewton_copia vf p vp \<noteq> Inl InvalidInput"
  by (auto simp: Calcular_TaxaReal_MetodoNewton_def Calcular_TaxaReal_MetodoNewton_copia_def
      split: prod.splits loop_exit.splits)

subsection \<open>A loan on which the search runs out\<close>






subsection \<open>The rows of calcularTabelaAmortizacao\<close>

lemma tabela_loop_stop:
  "\<not> m \<le> NUMERO_DE_REPETICOES \<Longrightarrow> tabela_loop vf t p m saldo tab = tab"
  by (simp add: tabela_loop.simps)

lemma tabela_loop_step:
  "m \<le> NUMERO_DE_REPETICOES \<Longrightarrow>
   tabela_loop vf t p m saldo tab =
     tabela_loop vf t p (m + 1)
       (js_sub saldo (js_sub (Calcular_PrestacaoMensal vf t p) (js_mul saldo t)))
       (tab @ [\<lparr>mes = m, prestacao = Calcular_PrestacaoMensal vf t p,
                 juros = js_mul saldo t,
                 amortizacao = js_sub (Calcular_PrestacaoMensal vf t p) (js_mul saldo t),
                 saldoDevedor = saldo\<rparr>])"
  by (subst tabela_loop.simps) (simp add: Let_def)

lemma tabela_loop_mes:
  "map mes (tabela_loop vf t p m saldo tab) = map mes tab @ [m..NUMERO_DE_REPETICOES]"
proof (induction vf t p m saldo tab rule: tabela_loop.induct)
  case (1 vf t p m saldo tab)
  show ?case
  proof (cases "m \<le> NUMERO_DE_REPETICOES")
    case False
    then show ?thesis by (simp add: tabela_loop_stop)
  next
    case True
    have "[m..NUMERO_DE_REPETICOES] = m # [m + 1..NUMERO_DE_REPETICOES]"
      using True by (simp add: upto_rec1)
    then show ?thesis
      using True "1.IH" [OF True refl refl] by (simp add: tabela_loop_step)
  qed
qed

lemma tabela_mes: "map mes (calcularTabelaAmortizacao vf t p) = [1..96]"
  using tabela_loop_mes [of vf t p 1 vf "[]"]
  by (simp add: calcularTabelaAmortizacao_def NUMERO_DE_REPETICOES_def)

lemma tabela_length: "length (calcularTabelaAmortizacao vf t p) = 96"
proof -
  have "length (map mes (calcularTabelaAmortizacao vf t p)) = length [1..96::int]"
    by (simp only: tabela_mes)
  then show ?thesis by simp
qed

lemma tabela_loop_hd:
  "tab \<noteq> [] \<Longrightarrow> hd (tabela_loop vf t p m saldo tab) = hd tab"
proof (induction vf t p m saldo tab rule: tabela_loop.induct)
  case (1 vf t p m saldo tab)
  show ?case
  proof (cases "m \<le> NUMERO_DE_REPETICOES")
    case False
    then show ?thesis by (simp add: tabela_loop_stop)
  next
    case True
    then show ?thesis
      using "1.IH" [OF True refl refl] "1.prems" by (simp add: tabela_loop_step)
  qed
qed

lemma tabela_first_row:
  "hd (calcularTabelaAmortizacao vf t p) =
     \<lparr>mes = 1, prestacao = Calcular_PrestacaoMensal vf t p,
      juros = js_mul vf t,
      amortizacao = js_sub (Calcular_PrestacaoMensal vf t p) (js_mul vf t),
      saldoDevedor = vf\<rparr>"
  by (simp add: calcularTabelaAmortizacao_def tabela_loop_step [of 1] NUMERO_DE_REPETICOES_def
      tabela_loop_hd)

lemma prestacao_100_half_1:
  "Calcular_PrestacaoMensal (Fin 100) (Fin (1 / 2)) 1 = Fin 150"
  by (simp add: Calcular_PrestacaoMensal_def Math_pow_def)

lemma tabela_loop_last_100:
  assumes "k = nat (96 - m)" and "1 \<le> m" and "m \<le> 96"
  shows "saldoDevedor (last (tabela_loop (Fin 100) (Fin (1 / 2)) 1 m
            (Fin (300 - 200 * (3 / 2) ^ nat (m - 1))) tab))
         = Fin (300 - 200 * (3 / 2) ^ 95)"
  using assms
proof (induction k arbitrary: m tab)
  case 0
  then have m: "m = 96" by simp
  show ?case
    unfolding m
    by (simp add: tabela_loop_step NUMERO_DE_REPETICOES_def tabela_loop_stop)
next
  case (Suc k)
  then have m: "m \<le> NUMERO_DE_REPETICOES" "k = nat (96 - (m + 1))" "1 \<le> m + 1" "m + 1 \<le> 96"
    by (simp_all add: NUMERO_DE_REPETICOES_def)
  have p: "nat (m + 1 - 1) = Suc (nat (m - 1))"
    using Suc.prems by simp
  have saldo: "js_sub (Fin (300 - 200 * (3 / 2) ^ nat (m - 1)))
          (js_sub (Calcular_PrestacaoMensal (Fin 100) (Fin (1 / 2)) 1)
             (js_mul (Fin (300 - 200 * (3 / 2) ^ nat (m - 1))) (Fin (1 / 2))))
        = Fin (300 - 200 * (3 / 2) ^ nat (m + 1 - 1))"
    unfolding p by (simp add: prestacao_100_half_1 algebra_simps)
  show ?case
    by (subst tabela_loop_step [OF m(1)]) (simp only: saldo Suc.IH [OF m(2,3,4)])
qed

lemma tabela_last_100:
  "saldoDevedor (last (calcularTabelaAmortizacao (Fin 100) (Fin (1 / 2)) 1))
     = Fin (300 - 200 * (3 / 2) ^ 95)"
  using tabela_loop_last_100 [of 95 1 "[]"]
  by (simp add: calcularTabelaAmortizacao_def)

subsection \<open>The rows of the handler of main.js\<close>

lemma price_loop_stop: "\<not> i \<le> p \<Longrightarrow> price_loop prest t p i s = s"
  by (simp add: price_loop.simps)

lemma price_loop_step:
  "i \<le> p \<Longrightarrow>
   price_loop prest t p i s =
     price_loop prest t p (i + 1)
       ((snd (amortiza prest t s))
          \<lparr>linhas := linhas s @
             [\<lparr>mes = i, prestacao = prest,
               juros = js_mul (valorFinanciado s) t,
               amortizacao = js_sub prest (js_mul (valorFinanciado s) t),
               saldoDevedor = js_sub (valorFinanciado s) (js_sub prest (js_mul (valorFinanciado s) t))\<rparr>]\<rparr>)"
  by (subst price_loop.simps) (simp add: amortiza_def Let_def)

lemma price_loop_mes:
  "map mes (linhas (price_loop prest t p i s)) = map mes (linhas s) @ [i..p]"
proof (induction prest t p i s rule: price_loop.induct)
  case (1 prest t p i s)
  show ?case
  proof (cases "i \<le> p")
    case False
    then show ?thesis by (simp add: price_loop_stop)
  next
    case True
    have u: "[i..p] = i # [i + 1..p]"
      using True by (simp add: upto_rec1)
    obtain j a sd s' where am: "amortiza prest t s = ((j, a, sd), s')"
      by (simp add: amortiza_def Let_def)
    have ih: "map mes (linhas (price_loop prest t p (i + 1)
                 (s'\<lparr>linhas := linhas s' @ [\<lparr>mes = i, prestacao = prest, juros = j,
                      amortizacao = a, saldoDevedor = sd\<rparr>]\<rparr>)))
              = map mes (linhas (s'\<lparr>linhas := linhas s' @ [\<lparr>mes = i, prestacao = prest, juros = j,
                      amortizacao = a, saldoDevedor = sd\<rparr>]\<rparr>)) @ [i + 1..p]"
      using "1.IH" [OF True am [symmetric] refl refl] .
    have l: "linhas s' = linhas s"
      using am by (auto simp: amortiza_def Let_def)
    show ?thesis
      using ih l am u True by (subst price_loop.simps) simp
  qed
qed

lemma tabela_price_mes:
  "map mes (linhas (tabela_price vf t p False)) = [1..p]"
  by (simp add: tabela_price_def Let_def price_loop_mes)

lemma tabela_price_length:
  "0 \<le> p \<Longrightarrow> int (length (linhas (tabela_price vf t p False))) = p"
proof -
  assume p: "0 \<le> p"
  have "length (map mes (linhas (tabela_price vf t p False))) = length [1..p]"
    by (simp only: tabela_price_mes)
  then show ?thesis using p by simp
qed

lemma tabela_price_100:
  "linhas (tabela_price (Fin 100) (Fin (1 / 2)) 1 False) =
     [\<lparr>mes = 1, prestacao = Fin 150, juros = Fin 50, amortizacao = Fin 100,
       saldoDevedor = Fin 0\<rparr>]"
  by (simp add: tabela_price_def Let_def prestacao_100_half_1 price_loop_step price_loop_stop
      amortiza_def)

lemma tabela_price_mes_entrada:
  "map mes (linhas (tabela_price vf t p True)) = [1..p - 1]"
  by (simp add: tabela_price_def Let_def price_loop_mes amortiza_def)

lemma price_loop_rows:
  fixes B :: "nat \<Rightarrow> real"
  assumes rec: "\<And>k. B (Suc k) = B k - (pay - B k * t)"
    and "1 \<le> i" and "valorFinanciado s = Fin (B (nat (i - 1)))"
  shows "linhas (price_loop (Fin pay) (Fin t) p i s) =
           linhas s @
           map (\<lambda>k. \<lparr>mes = k, prestacao = Fin pay,
                      juros = Fin (B (nat (k - 1)) * t),
                      amortizacao = Fin (pay - B (nat (k - 1)) * t),
                      saldoDevedor = Fin (B (nat k))\<rparr>) [i..p]"
  using assms(2,3)
proof (induction "Fin pay" "Fin t" p i s rule: price_loop.induct)
  case (1 p i s)
  show ?case
  proof (cases "i \<le> p")
    case False
    then show ?thesis by (simp add: price_loop_stop)
  next
    case True
    let ?b = "B (nat (i - 1))"
    have u: "[i..p] = i # [i + 1..p]"
      using True by (simp add: upto_rec1)
    have n: "nat i = Suc (nat (i - 1))" using "1.prems" by simp
    have b': "B (nat i) = ?b - (pay - ?b * t)"
      unfolding n by (rule rec)
    have am: "amortiza (Fin pay) (Fin t) s =
        ((Fin (?b * t), Fin (pay - ?b * t), Fin (B (nat i))),
         s\<lparr>valorFinanciado := Fin (B (nat i)),
           pt := js_add (pt s) (Fin pay),
           jt := js_add (jt s) (Fin (?b * t)),
           att := js_add (att s) (Fin (pay - ?b * t))\<rparr>)"
      using "1.prems"(2) by (simp add: amortiza_def Let_def b')
    let ?s' = "s\<lparr>valorFinanciado := Fin (B (nat i)),
           pt := js_add (pt s) (Fin pay),
           jt := js_add (jt s) (Fin (?b * t)),
           att := js_add (att s) (Fin (pay - ?b * t))\<rparr>"
    let ?s'' = "?s'\<lparr>linhas := linhas ?s' @
                  [\<lparr>mes = i, prestacao = Fin pay, juros = Fin (?b * t),
                    amortizacao = Fin (pay - ?b * t), saldoDevedor = Fin (B (nat i))\<rparr>]\<rparr>"
    have i1: "1 \<le> i + 1" using "1.prems" by simp
    have v: "valorFinanciado ?s'' = Fin (B (nat (i + 1 - 1)))" by simp
    note ih = "1.hyps" [OF True am [symmetric] refl refl i1 v]
    have "price_loop (Fin pay) (Fin t) p i s = price_loop (Fin pay) (Fin t) p (i + 1) ?s''"
      using True am by (subst price_loop.simps) simp
    then show ?thesis
      using ih u by simp
  qed
qed

lemma tabela_price_schedule:
  assumes "0 < P" and "0 < t" and "t < 1" and "1 \<le> n"
  defines "pay \<equiv> P * t / (1 - (1 + t) powi (- n))"
  shows "\<exists>B. B 0 = P
           \<and> (\<forall>k. B (Suc k) = B k - (pay - B k * t))
           \<and> (\<forall>k. B (Suc k) < B k)
           \<and> B (nat n) = 0
           \<and> linhas (tabela_price (Fin P) (Fin t) n False) =
               map (\<lambda>k. \<lparr>mes = k, prestacao = Fin pay,
                          juros = Fin (B (nat (k - 1)) * t),
                          amortizacao = Fin (pay - B (nat (k - 1)) * t),
                          saldoDevedor = Fin (B (nat k))\<rparr>) [1..n]"
proof -
  define q where "q = 1 + t"
  define m where "m = nat n"
  define D where "D = P - pay / t"
  define B where "B = (\<lambda>k::nat. D * q ^ k + pay / t)"
  have q: "1 < q" using assms(2) by (simp add: q_def)
  have m: "0 < m" using assms(4) by (simp add: m_def)
  define Q where "Q = q ^ m"
  have Q: "1 < Q" unfolding Q_def using q m by (intro one_less_power) auto
  have powi: "(1 + t) powi (- n) = 1 / Q"
    using assms(4) by (simp add: power_int_def m_def q_def Q_def inverse_eq_divide power_divide)
  have pay: "pay = P * t * Q / (Q - 1)"
    unfolding pay_def powi using Q by (simp add: field_simps)
  have D: "D = - P / (Q - 1)"
    unfolding D_def pay using Q assms(2) by (simp add: field_simps)
  have Dneg: "D < 0"
    unfolding D using Q assms(1) by (simp add: field_simps)
  have rec: "B (Suc k) = B k - (pay - B k * t)" for k
    using assms(2) by (simp add: B_def q_def field_simps)
  have dec: "B (Suc k) < B k" for k
  proof -
    have "B (Suc k) - B k = D * q ^ k * t"
      by (simp add: B_def q_def algebra_simps)
    moreover have "D * q ^ k * t < 0"
      using Dneg q assms(2) by (simp add: mult_less_0_iff)
    ultimately show ?thesis by linarith
  qed
  have b0: "B 0 = P" using assms(2) by (simp add: B_def D_def)
  have "B m = D * Q + pay / t" by (simp add: B_def Q_def)
  also have "\<dots> = 0"
    unfolding D pay using Q assms(2) by (simp add: field_simps)
  finally have bn: "B m = 0" .
  have prest: "Calcular_PrestacaoMensal (Fin P) (Fin t) n = Fin pay"
    unfolding pay_def using assms(2,4) by (intro prestacao_nonzero_rate) auto
  let ?s0 = "\<lparr>valorFinanciado = Fin P, pt = Fin 0, jt = Fin 0, att = Fin 0, linhas = []\<rparr>"
  have "linhas (price_loop (Fin pay) (Fin t) n 1 ?s0) =
          linhas ?s0 @
          map (\<lambda>k. \<lparr>mes = k, prestacao = Fin pay,
                     juros = Fin (B (nat (k - 1)) * t),
                     amortizacao = Fin (pay - B (nat (k - 1)) * t),
                     saldoDevedor = Fin (B (nat k))\<rparr>) [1..n]"
    by (rule price_loop_rows) (simp_all add: rec b0)
  then have rows: "linhas (tabela_price (Fin P) (Fin t) n False) =
          map (\<lambda>k. \<lparr>mes = k, prestacao = Fin pay,
                     juros = Fin (B (nat (k - 1)) * t),
                     amortizacao = Fin (pay - B (nat (k - 1)) * t),
                     saldoDevedor = Fin (B (nat k))\<rparr>) [1..n]"
    by (simp add: tabela_price_def Let_def prest)
  show ?thesis
    using b0 rec dec bn rows unfolding m_def by blast
qed

subsection \<open>A total below the principal\<close>



subsection \<open>The search on a loan of one period\<close>


lemma valor_pago_one_period:
  assumes "0 < r"
  shows "Calcular_ValorPago (Fin P) (Fin r) 1 = Fin (P * (1 + r))"
proof -
  have "P * r / (1 - 1 / (1 + r)) = P * (1 + r)"
    using assms by (simp add: field_simps)
  moreover have "1 - 1 / (1 + r) \<noteq> 0"
    using assms by (simp add: field_simps)
  ultimately show ?thesis
    using assms
    by (simp add: Calcular_ValorPago_def Calcular_PrestacaoMensal_def Math_pow_def
        power_int_minus inverse_eq_divide)
qed









lemma roundtrip_two_periods_residual:
  "erro_de (Fin 100) 2 (Calcular_ValorPago (Fin 100) (Fin (1 / 10)) 2) (Fin (1 / 10))
     = Fin (100 / 21)"
  by (simp add: erro_de_def Calcular_ValorPago_def Calcular_PrestacaoMensal_def Math_pow_def
      power_int_minus power_divide)

lemma roundtrip_small_principal:
  "Calcular_TaxaReal_MetodoNewton (Fin (1 / 10000000)) 1
     (Calcular_ValorPago (Fin (1 / 10000000)) (Fin (2 / 5)) 1) = Inr (Fin 10)"
  by (simp add: valor_pago_one_period Calcular_TaxaReal_MetodoNewton_def newton_inicio_def
      newton_loop_exit erro_de_def Math_pow_def precisao_def)

section \<open>The instalment\<close>

text \<open>
  Claim C1, as stated: for a positive principal and at least one period the instalment
  is the annuity formula when the rate is not zero and \<open>principal / periods\<close> when it
  is zero. The function has no branch for a zero rate: there it divides \<open>0\<close> by
  \<open>1 - 1\<close> and the result is NaN, not \<open>100 / 2\<close>.
\<close>

theorem prestacao_zero_rate_counterexample:
  "Calcular_PrestacaoMensal (Fin 100) (Fin 0) 2 = NaN
   \<and> Calcular_PrestacaoMensal (Fin 100) (Fin 0) 2 \<noteq> Fin (100 / 2)"
  by (simp add: Calcular_PrestacaoMensal_def Math_pow_def)

text \<open>
  Claim C1, amended: for at least one period and a rate above \<open>-1\<close>, the instalment is
  the annuity formula when the rate is not zero, and NaN when it is zero.
\<close>

theorem prestacao_formula:
  assumes "1 \<le> n" and "- 1 < r"
  shows "Calcular_PrestacaoMensal (Fin P) (Fin r) n =
           (if r = 0 then NaN else Fin (P * r / (1 - (1 + r) powi (- n))))"
proof (cases "r = 0")
  case True
  then show ?thesis
    using assms by (simp add: Calcular_PrestacaoMensal_def Math_pow_def)
next
  case False
  then show ?thesis
    using assms by (simp add: prestacao_nonzero_rate)
qed

theorem prestacao_formula_witness:
  "Calcular_PrestacaoMensal (Fin 100) (Fin (1 / 2)) 1 = Fin 150
   \<and> Calcular_PrestacaoMensal (Fin 100) (Fin 0) 1 = NaN"
  using prestacao_formula [of 1 "1 / 2" 100] prestacao_formula [of 1 0 100]
  by simp

section \<open>The unit of the effective rate\<close>




section \<open>The number of rows\<close>

text \<open>
  Claim C3. The schedule has one row per period, numbered from 1 to \<open>periods\<close>, the
  count being the caller's \<open>periods\<close> and never a constant of the module.
  \<open>calcularTabelaAmortizacao\<close> takes \<open>p\<close> and uses it for the instalment, but its loop
  runs to \<open>NUMERO_DE_REPETICOES\<close>: a loan of 12 periods gets 96 rows, numbered 1 to 96.
  The loop of main.js runs to \<open>p\<close> (lemma \<open>tabela_price_mes\<close>), or to \<open>p - 1\<close> after
  the down payment (lemma \<open>tabela_price_mes_entrada\<close>).
\<close>

theorem tabela_96_rows:
  "length (calcularTabelaAmortizacao (Fin 1000) (Fin (1 / 100)) 12) = 96
   \<and> map mes (calcularTabelaAmortizacao (Fin 1000) (Fin (1 / 100)) 12) = [1..96]"
  by (simp only: tabela_length tabela_mes)

section \<open>The balance in a row\<close>

text \<open>
  Claim C4. Each row's balance is the balance after that period's amortization, and the
  last row's balance is within \<open>0.01\<close> of zero. For 100 lent at one half per period
  over one period the instalment is 150 and the first amortization is 100, so the balance
  after it is 0; the first row of \<open>calcularTabelaAmortizacao\<close> carries 100, the balance
  before it, and its last row, the 96th, carries \<open>300 - 200 * (3/2)^95\<close>. The handler
  of main.js gives the one row with balance 0 (lemma \<open>tabela_price_100\<close>), and for
  every loan of the claim its rows have the instalment as interest plus amortization,
  balances that fall strictly and a last balance of 0 (lemma \<open>tabela_price_schedule\<close>).
\<close>

theorem tabela_balance_before_payment:
  "saldoDevedor (hd (calcularTabelaAmortizacao (Fin 100) (Fin (1 / 2)) 1)) = Fin 100
   \<and> js_sub (Fin 100) (amortizacao (hd (calcularTabelaAmortizacao (Fin 100) (Fin (1 / 2)) 1)))
       = Fin 0
   \<and> saldoDevedor (last (calcularTabelaAmortizacao (Fin 100) (Fin (1 / 2)) 1))
       = Fin (300 - 200 * (3 / 2) ^ 95)
   \<and> (300 - 200 * (3 / 2) ^ 95 :: real) < - 1000000"
proof -
  have "(3 / 2 :: real) ^ 95 = 3 ^ 95 / 2 ^ 95"
    by (simp only: power_divide)
  then have "(300 - 200 * (3 / 2) ^ 95 :: real) < - 1000000"
    by simp
  then show ?thesis
    by (simp add: tabela_first_row tabela_last_100 prestacao_100_half_1)
qed

section \<open>Inputs outside the domain\<close>

text \<open>
  Claim C5, as stated: with a principal or a number of periods that is not positive, a
  rate below \<open>-1\<close>, or a NaN, each operation fails with \<open>InvalidInput\<close> and returns no
  number. No operation checks its arguments: a negative principal gives a negative
  instalment, \<open>-1\<close> periods and a rate of \<open>-3\<close> give numbers, a NaN principal makes the
  rate search return 10, and the schedule of NaN has its 96 rows.
\<close>

theorem invalid_input_not_rejected_counterexample:
  "Calcular_PrestacaoMensal (Fin (- 100)) (Fin (1 / 2)) 1 = Fin (- 150)
   \<and> Calcular_ValorPago (Fin 100) (Fin (1 / 2)) (- 1) = Fin 100
   \<and> Calcular_CoeficienteFinanciamento (Fin (- 3)) 2 = Fin (- 4)
   \<and> Calcular_TaxaReal_MetodoNewton NaN 12 (Fin 11347) = Inr (Fin 10)
   \<and> length (calcularTabelaAmortizacao NaN NaN 0) = 96"
proof -
  have "newton_loop NaN 12 (Fin 11347) (newton_inicio NaN 12 (Fin 11347))
          = (GuardFalse, newton_inicio NaN 12 (Fin 11347))"
    by (rule newton_NaN_entry) simp
  moreover have "estimativa (newton_inicio NaN 12 (Fin 11347)) = Fin (1 / 10)"
    by (simp add: newton_inicio_def)
  ultimately have "Calcular_TaxaReal_MetodoNewton NaN 12 (Fin 11347) = Inr (Fin 10)"
    by (simp add: Calcular_TaxaReal_MetodoNewton_def)
  then show ?thesis
    by (simp add: Calcular_PrestacaoMensal_def Calcular_ValorPago_def
        Calcular_CoeficienteFinanciamento_def Math_pow_def tabela_length)
qed

text \<open>
  Claim C5, amended: no operation signals \<open>InvalidInput\<close>. The rate search fails only
  with \<open>NoConvergence\<close>; the closed formulas return a number for every input and a NaN
  principal or rate comes out as NaN; the schedule has its 96 rows whatever the input.
\<close>

theorem no_operation_rejects_input:
  "Calcular_TaxaReal_MetodoNewton vf p vp \<noteq> Inl InvalidInput
   \<and> Calcular_TaxaReal_MetodoNewton_copia vf p vp \<noteq> Inl InvalidInput
   \<and> Calcular_PrestacaoMensal NaN t p = NaN
   \<and> Calcular_PrestacaoMensal vf NaN p = NaN
   \<and> Calcular_ValorPago NaN t p = NaN
   \<and> Calcular_ValorPago vf NaN p = NaN
   \<and> Calcular_CoeficienteFinanciamento NaN p = NaN
   \<and> length (calcularTabelaAmortizacao vf t p) = 96"
  by (simp add: newton_never_invalid_input prestacao_NaN valor_pago_NaN coeficiente_NaN
      tabela_length)

section \<open>The iteration cap\<close>


section \<open>A total paid below the principal\<close>




section \<open>From the total paid back to the rate\<close>




section \<open>The total paid\<close>



section \<open>NaN arguments of the rate search\<close>

text \<open>
  Claim C10. When \<open>valorFinanciado\<close> or \<open>valorPago\<close> is NaN, the first \<open>erro\<close> is
  NaN, the guard \<open>Math.abs(erro) > precisao\<close> is false on entry, the loop makes no
  pass and \<open>return null\<close> is not reached: main.js returns \<open>0.1 * 100 = 10\<close> and the
  copy in \<open>part_001\<close> returns its constant 3.8956.
\<close>

theorem newton_NaN_is_converged:
  assumes "vf = NaN \<or> vp = NaN"
  shows "\<not> js_gt (Math_abs (erro (newton_inicio vf p vp))) precisao
       \<and> iteracoes (snd (newton_loop vf p vp (newton_inicio vf p vp))) = 0
       \<and> Calcular_TaxaReal_MetodoNewton vf p vp = Inr (Fin 10)
       \<and> Calcular_TaxaReal_MetodoNewton_copia vf p vp = Inr (Fin (38956 / 10000))"
proof -
  have e: "erro (newton_inicio vf p vp) = NaN"
    using assms by (auto simp: newton_inicio_def erro_de_NaN)
  have l: "newton_loop vf p vp (newton_inicio vf p vp) = (GuardFalse, newton_inicio vf p vp)"
    using assms by (rule newton_NaN_entry)
  have i: "iteracoes (newton_inicio vf p vp) = 0" "estimativa (newton_inicio vf p vp) = Fin (1 / 10)"
    by (simp_all add: newton_inicio_def)
  show ?thesis
    using e l i
    by (simp add: Calcular_TaxaReal_MetodoNewton_def Calcular_TaxaReal_MetodoNewton_copia_def)
qed

theorem newton_NaN_is_converged_witness:
  "iteracoes (snd (newton_loop NaN 12 (Fin 11347) (newton_inicio NaN 12 (Fin 11347)))) = 0
   \<and> Calcular_TaxaReal_MetodoNewton NaN 12 (Fin 11347) = Inr (Fin 10)
   \<and> Calcular_TaxaReal_MetodoNewton_copia (Fin 10000) 12 NaN = Inr (Fin (38956 / 10000))"
  using newton_NaN_is_converged [of NaN "Fin 11347" 12]
        newton_NaN_is_converged [of "Fin 10000" NaN 12]
  by simp

end
